theory Spec2Isabelle
  imports Main "HOL-Library.Sublist" "HOL-Library.Multiset"
begin

section \<open>Strings and paths\<close>

text \<open>
  Python strings are modelled as \<open>string\<close> (lists of characters). The helpers below are
  the library calls the task module relies on: \<^verbatim>\<open>sep.join(xs)\<close>, \<^verbatim>\<open>str(n)\<close> for a
  non-negative integer, and \<^verbatim>\<open>os.path.join(a, b)\<close> on a POSIX system (an absolute second
  component replaces the first).
\<close>

definition newline :: char where
  "newline = CHR 0x0A"

fun str_join :: "string \<Rightarrow> string list \<Rightarrow> string" where
  "str_join sep [] = []"
| "str_join sep [x] = x"
| "str_join sep (x # y # ys) = x @ sep @ str_join sep (y # ys)"

definition digit_char :: "nat \<Rightarrow> char" where
  "digit_char d = char_of (48 + d)"

fun str_nat :: "nat \<Rightarrow> string" where
  "str_nat n = (if n < 10 then [digit_char n] else str_nat (n div 10) @ [digit_char (n mod 10)])"

declare str_nat.simps [simp del]

definition path_join :: "string \<Rightarrow> string \<Rightarrow> string" where
  "path_join a b =
     (if b \<noteq> [] \<and> hd b = CHR ''/'' then b
      else if a = [] \<or> last a = CHR ''/'' then a @ b
      else a @ ''/'' @ b)"

definition strip_prefix :: "string \<Rightarrow> string \<Rightarrow> string option" where
  "strip_prefix p s = (if take (length p) s = p then Some (drop (length p) s) else None)"

section \<open>The artifact patterns\<close>

text \<open>
  \<^verbatim>\<open>Arch = Enum('Arch', 'osx-64 linux-64 noarch')\<close>; the pattern only uses the member
  names, in declaration order.
\<close>

definition Arch :: "string list" where
  "Arch = [''osx-64'', ''linux-64'', ''noarch'']"

text \<open>
  \<^verbatim>\<open>PACKAGE_RE = re.compile(r"(.*packages)/(osx-64|linux-64|noarch)/(.+\.tar\.bz2)$")\<close>,
  used through \<^verbatim>\<open>PACKAGE_RE.match(url)\<close>, which anchors at the start of the string.
  Python's \<^verbatim>\<open>$\<close> (no MULTILINE flag) matches at the end of the string and just before a
  newline that ends the string; \<^verbatim>\<open>.\<close> (no DOTALL flag) matches every character but a
  newline. Hence the matched part of the URL is \<open>dollar_body url\<close>, and it holds no
  newline. The greedy \<^verbatim>\<open>.*\<close> is tried longest first: \<open>package_scan\<close> moves one
  character at a time into the prefix, and falls back to the shorter prefix when the
  longer ones have failed. The three groups are returned as \<^verbatim>\<open>match.groups()\<close> does.
\<close>

definition dollar_body :: "string \<Rightarrow> string" where
  "dollar_body url = (if url \<noteq> [] \<and> last url = newline then butlast url else url)"

fun arch_alt :: "string list \<Rightarrow> string \<Rightarrow> (string \<times> string) option" where
  "arch_alt [] s = None"
| "arch_alt (a # as) s =
     (case strip_prefix (a @ ''/'') s of
        Some rest \<Rightarrow>
          (if length ''.tar.bz2'' < length rest \<and> suffix ''.tar.bz2'' rest
           then Some (a, rest) else arch_alt as s)
      | None \<Rightarrow> arch_alt as s)"

definition package_tail :: "string \<Rightarrow> string \<Rightarrow> (string \<times> string \<times> string) option" where
  "package_tail pre s =
     (case strip_prefix ''packages/'' s of
        None \<Rightarrow> None
      | Some rest \<Rightarrow>
          (case arch_alt Arch rest of
             None \<Rightarrow> None
           | Some (a, f) \<Rightarrow> Some (pre @ ''packages'', a, f)))"

fun package_scan :: "string \<Rightarrow> string \<Rightarrow> (string \<times> string \<times> string) option" where
  "package_scan pre [] = package_tail pre []"
| "package_scan pre (c # cs) =
     (case package_scan (pre @ [c]) cs of
        Some g \<Rightarrow> Some g
      | None \<Rightarrow> package_tail pre (c # cs))"

definition PACKAGE_RE_match :: "string \<Rightarrow> (string \<times> string \<times> string) option" where
  "PACKAGE_RE_match url =
     (let body = dollar_body url in
      if newline \<in> set body then None else package_scan [] body)"

text \<open>
  \<^verbatim>\<open>IMAGE_RE = re.compile(r".*images/(.+)(?::|%3A)(.+)\.tar\.gz$")\<close>. Again every
  greedy quantifier is tried longest first: \<open>image_scan\<close> is the leading \<^verbatim>\<open>.*\<close>,
  \<open>image_name_scan\<close> the first group, \<open>image_sep\<close> the separator alternative and
  \<open>image_tag\<close> the second group with the fixed suffix.
\<close>

definition image_tag :: "string \<Rightarrow> string option" where
  "image_tag s =
     (if length ''.tar.gz'' < length s \<and> suffix ''.tar.gz'' s
      then Some (take (length s - length ''.tar.gz'') s) else None)"

definition image_sep :: "string \<Rightarrow> string \<Rightarrow> (string \<times> string) option" where
  "image_sep name s =
     (case (case strip_prefix '':'' s of Some r \<Rightarrow> image_tag r | None \<Rightarrow> None) of
        Some t \<Rightarrow> Some (name, t)
      | None \<Rightarrow>
          (case (case strip_prefix ''%3A'' s of Some r \<Rightarrow> image_tag r | None \<Rightarrow> None) of
             Some t \<Rightarrow> Some (name, t)
           | None \<Rightarrow> None))"

fun image_name_scan :: "string \<Rightarrow> string \<Rightarrow> (string \<times> string) option" where
  "image_name_scan name [] = (if name \<noteq> [] then image_sep name [] else None)"
| "image_name_scan name (c # cs) =
     (case image_name_scan (name @ [c]) cs of
        Some g \<Rightarrow> Some g
      | None \<Rightarrow> (if name \<noteq> [] then image_sep name (c # cs) else None))"

definition image_at :: "string \<Rightarrow> (string \<times> string) option" where
  "image_at s =
     (case strip_prefix ''images/'' s of
        None \<Rightarrow> None
      | Some r \<Rightarrow> image_name_scan [] r)"

fun image_scan :: "string \<Rightarrow> (string \<times> string) option" where
  "image_scan [] = image_at []"
| "image_scan (c # cs) =
     (case image_scan cs of
        Some g \<Rightarrow> Some g
      | None \<Rightarrow> image_at (c # cs))"

definition IMAGE_RE_match :: "string \<Rightarrow> (string \<times> string) option" where
  "IMAGE_RE_match url =
     (let body = dollar_body url in
      if newline \<in> set body then None else image_scan body)"

section \<open>Artifact collection: the classification of \<^verbatim>\<open>check_circle_artifacts\<close>\<close>

text \<open>
  \<^verbatim>\<open>Image = namedtuple('Image', "url name tag")\<close> and
  \<^verbatim>\<open>Package = namedtuple('Package', "arch fname url repodata_md")\<close>. An artifact is the
  triple \<^verbatim>\<open>(path, url, buildno)\<close> that the CI client lists.
\<close>

record Image =
  img_url :: string
  img_name :: string
  img_tag :: string

record Package =
  pkg_arch :: string
  pkg_fname :: string
  pkg_url :: string
  pkg_repodata_md :: string

type_synonym artifact = "string \<times> string \<times> nat"

text \<open>\<^verbatim>\<open>artifact_urls = set(a[1] for a in artifacts)\<close>\<close>

definition artifact_urls :: "artifact list \<Rightarrow> string set" where
  "artifact_urls artifacts = set (map (\<lambda>a. fst (snd a)) artifacts)"

text \<open>
  The state of the classification loop: the lists \<^verbatim>\<open>packages\<close> and \<^verbatim>\<open>images\<close> and the
  dictionary \<^verbatim>\<open>repos\<close> from repository URL to the set of its architectures.
\<close>

record classification =
  cl_packages :: "Package list"
  cl_images :: "Image list"
  cl_repos :: "string \<rightharpoonup> string set"

definition repodata_url_of :: "string \<Rightarrow> string \<Rightarrow> string" where
  "repodata_url_of repo_url arch = str_join ''/'' [repo_url, arch, ''repodata.json'']"

text \<open>One iteration of \<^verbatim>\<open>for path, url, buildno in artifacts\<close> (lines 265 to 281).\<close>

definition classify_step :: "string set \<Rightarrow> classification \<Rightarrow> artifact \<Rightarrow> classification" where
  "classify_step urls cl a =
     (case a of (path, url, buildno) \<Rightarrow>
        (case PACKAGE_RE_match url of
           Some (repo_url, arch, fname) \<Rightarrow>
             (let repodata_url = repodata_url_of repo_url arch in
              if repodata_url \<in> urls
              then cl\<lparr>cl_repos := (cl_repos cl)(repo_url \<mapsto>
                          insert arch (case cl_repos cl repo_url of None \<Rightarrow> {} | Some s \<Rightarrow> s)),
                      cl_packages := cl_packages cl @
                          [\<lparr>pkg_arch = arch, pkg_fname = fname, pkg_url = url,
                            pkg_repodata_md = ''[repodata.json]('' @ repodata_url @ '')''\<rparr>]\<rparr>
              else cl\<lparr>cl_packages := cl_packages cl @
                          [\<lparr>pkg_arch = arch, pkg_fname = fname, pkg_url = url,
                            pkg_repodata_md = ''''\<rparr>]\<rparr>)
         | None \<Rightarrow>
             (case IMAGE_RE_match url of
                Some (name, tag) \<Rightarrow>
                  cl\<lparr>cl_images := cl_images cl @
                       [\<lparr>img_url = url, img_name = name, img_tag = tag\<rparr>]\<rparr>
              | None \<Rightarrow> cl)))"

definition circle_classify :: "artifact list \<Rightarrow> classification" where
  "circle_classify artifacts =
     foldl (classify_step (artifact_urls artifacts))
       \<lparr>cl_packages = [], cl_images = [], cl_repos = Map.empty\<rparr> artifacts"

section \<open>Exceptions, effects and the environment of a task\<close>

text \<open>
  The exceptions a task can meet. \<open>ExternalError\<close> stands for any other exception
  derived from \<^verbatim>\<open>Exception\<close> that a collaborator (the host API client, the CI client,
  the file system, the git library) raises. Signals outside \<^verbatim>\<open>Exception\<close>
  (\<^verbatim>\<open>KeyboardInterrupt\<close>, \<^verbatim>\<open>SystemExit\<close>) are not modelled.
\<close>

datatype exn =
    RuntimeError string
  | NameError string
  | UnboundLocalError string
  | ExternalError string

text \<open>
  How an invocation of a task ends: it returns a value, it raises, or it has re-queued
  itself through \<^verbatim>\<open>self.retry\<close> (Celery's \<^verbatim>\<open>Retry\<close> signal, with its countdown).
\<close>

datatype 'a outcome = Returned 'a | Raised exn | RetryTask nat

text \<open>How a block inside a task ends: it falls through, it returns from the task, or it raises.\<close>

datatype 'a flow = Continue 'a | Return "bool \<times> string" | Raise exn

text \<open>
  The effects of a task on its surroundings are recorded as a trace of events, in the
  order in which the calls are made (a call is recorded when it is made, whatever its
  result). Log records are part of the trace only for the checkout and the bump task.
\<close>

datatype event =
    EvLog string
  | EvUpdateComment nat string
  | EvMkTmpDir string
  | EvRmTmpDir string
  | EvOpen string
  | EvClose string
  | EvFetch "string list"
  | EvSkopeoUpload string string
  | EvAnacondaUpload string
  | EvSleep nat
  | EvMergePr nat "string option" "string option"
  | EvClone string
  | EvCloseClone string
  | EvCommitPush "string list" string
  | EvResetBuildnumber string int
  | EvSave string

text \<open>
  The state a task runs in: the trace, the working directory of the process, the
  temporary clones that exist on disk, and how many calls of each upload primitive have
  been made so far (the answer of an upload may change from one attempt to the next).
\<close>

record state =
  events :: "event list"
  cwd :: string
  clones :: "string list"
  skopeo_calls :: nat
  anaconda_calls :: nat

definition emit :: "event \<Rightarrow> state \<Rightarrow> state" where
  "emit e s = s\<lparr>events := events s @ [e]\<rparr>"

text \<open>
  A pull request and a commit as the host API returns them, with the fields the tasks
  read: \<^verbatim>\<open>pr['head']['ref']\<close>, \<^verbatim>\<open>pr['head']['sha']\<close>, \<^verbatim>\<open>pr['head']['user']['login']\<close>,
  \<^verbatim>\<open>pr['head']['repo']['name']\<close>, \<^verbatim>\<open>pr['head']['repo']['owner']['login']\<close>,
  \<^verbatim>\<open>pr['user']['login']\<close>; \<^verbatim>\<open>commit['sha']\<close>, \<^verbatim>\<open>commit['author']\<close> (null, or an object
  whose \<^verbatim>\<open>login\<close> may be missing), \<^verbatim>\<open>commit['commit']['author']['name']\<close> and
  \<^verbatim>\<open>['email']\<close>.
\<close>

record pull_request =
  pr_head_ref :: string
  pr_head_sha :: string
  pr_head_user_login :: string
  pr_head_repo_name :: string
  pr_head_repo_owner_login :: string
  pr_user_login :: string

record commit =
  c_sha :: string
  c_author :: "string option option"
  c_name :: string
  c_email :: string

text \<open>
  The collaborators of the merge task, as functions that give the answer of each call:
  the host API client \<^verbatim>\<open>ghapi\<close>, the CI client, the scratch directory, the file system,
  the batch download and the two upload primitives. An upload primitive returns a
  truth value; its first argument here is the number of calls made before.
\<close>

record world =
  gh_user :: string
  gh_get_prs :: "nat \<Rightarrow> exn + pull_request"
  gh_check_protections :: "nat \<Rightarrow> string \<Rightarrow> exn + (bool option \<times> string)"
  gh_update_comment :: "nat \<Rightarrow> string \<Rightarrow> exn option"
  gh_iter_pr_commits :: "nat \<Rightarrow> exn + commit list"
  gh_merge_pr :: "nat \<Rightarrow> string option \<Rightarrow> string option \<Rightarrow> exn + (bool \<times> string)"
  circle_get_artifacts :: "string \<Rightarrow> string \<Rightarrow> exn + artifact list"
  tmpdir_name :: string
  fs_open :: "string \<Rightarrow> exn option"
  async_fetch :: "string list \<Rightarrow> exn option"
  skopeo_upload :: "nat \<Rightarrow> string \<Rightarrow> string \<Rightarrow> bool"
  anaconda_upload :: "nat \<Rightarrow> string \<Rightarrow> bool"

section \<open>The merge task\<close>

subsection \<open>Classification of the artifacts (lines 341 to 357)\<close>

text \<open>
  The loop fills \<^verbatim>\<open>files\<close> (URL and local path), \<^verbatim>\<open>images\<close> (file name and image
  reference) and \<^verbatim>\<open>packages\<close> (local path).
\<close>

record merge_lists =
  ml_files :: "(string \<times> string) list"
  ml_images :: "(string \<times> string) list"
  ml_packages :: "string list"

definition merge_classify_step :: "merge_lists \<Rightarrow> artifact \<Rightarrow> merge_lists" where
  "merge_classify_step ml a =
     (case a of (path, url, buildno) \<Rightarrow>
        (case PACKAGE_RE_match url of
           Some (repo_url, arch, fname) \<Rightarrow>
             (let fpath = path_join arch fname in
              ml\<lparr>ml_files := ml_files ml @ [(url, fpath)],
                 ml_packages := ml_packages ml @ [fpath]\<rparr>)
         | None \<Rightarrow>
             (case IMAGE_RE_match url of
                Some (name, tag) \<Rightarrow>
                  (let fname = name @ ''__'' @ tag @ ''.tar.gz'' in
                   ml\<lparr>ml_files := ml_files ml @ [(url, fname)],
                      ml_images := ml_images ml @ [(fname, name @ '':'' @ tag)]\<rparr>)
              | None \<Rightarrow> ml)))"

definition merge_classify :: "artifact list \<Rightarrow> merge_lists" where
  "merge_classify artifacts =
     foldl merge_classify_step \<lparr>ml_files = [], ml_images = [], ml_packages = []\<rparr> artifacts"

subsection \<open>Download into the scratch directory (lines 369 to 384)\<close>

text \<open>
  The loop of the \<^verbatim>\<open>try\<close> block opens one file per artifact; \<open>open_files\<close> returns the
  handles opened so far and the exception that stopped the loop, if any. The creation
  of the directories inside the scratch directory is not recorded.
\<close>

fun open_files ::
  "world \<Rightarrow> string \<Rightarrow> (string \<times> string) list \<Rightarrow> string list \<Rightarrow> state
     \<Rightarrow> (exn option \<times> string list) \<times> state" where
  "open_files w tmpdir [] fds s = ((None, fds), s)"
| "open_files w tmpdir ((url, path) # files) fds s =
     (let fpath = path_join tmpdir path; s1 = emit (EvOpen fpath) s in
      case fs_open w fpath of
        Some e \<Rightarrow> ((Some e, fds), s1)
      | None \<Rightarrow> open_files w tmpdir files (fds @ [fpath]) s1)"

text \<open>The \<^verbatim>\<open>finally\<close> clause: \<^verbatim>\<open>for fd in fds: fd.close()\<close>.\<close>

definition close_all :: "string list \<Rightarrow> state \<Rightarrow> state" where
  "close_all fds s = foldl (\<lambda>t fd. emit (EvClose fd) t) s fds"

text \<open>
  The \<^verbatim>\<open>try\<close> statement has a \<^verbatim>\<open>finally\<close> clause and no \<^verbatim>\<open>except\<close> clause: an exception
  of the block leaves the statement after the handles are closed. The result on the
  right is the value of the flag \<^verbatim>\<open>done\<close> after the statement (it is \<^verbatim>\<open>False\<close> before).
\<close>

definition download_files ::
  "world \<Rightarrow> string \<Rightarrow> (string \<times> string) list \<Rightarrow> state \<Rightarrow> (exn + bool) \<times> state" where
  "download_files w tmpdir files s =
     (case open_files w tmpdir files [] s of
        ((Some e, fds), s1) \<Rightarrow> (Inl e, close_all fds s1)
      | ((None, fds), s1) \<Rightarrow>
          (let s2 = emit (EvFetch (map fst files)) s1 in
           case async_fetch w (map fst files) of
             Some e \<Rightarrow> (Inl e, close_all fds s2)
           | None \<Rightarrow> (Inr True, close_all fds s2)))"

subsection \<open>The upload loops (lines 388 to 420)\<close>

text \<open>
  \<^verbatim>\<open>for _ in range(5): if upload(...): break; await asyncio.sleep(5)\<close> with its
  \<^verbatim>\<open>else\<close> clause. The first argument counts the iterations that remain; the result
  \<open>False\<close> is the \<^verbatim>\<open>else\<close> clause (the range is used up without a \<^verbatim>\<open>break\<close>).
\<close>

fun skopeo_attempts :: "world \<Rightarrow> nat \<Rightarrow> string \<Rightarrow> string \<Rightarrow> state \<Rightarrow> bool \<times> state" where
  "skopeo_attempts w 0 fpath ndref s = (False, s)"
| "skopeo_attempts w (Suc n) fpath ndref s =
     (let ok = skopeo_upload w (skopeo_calls s) fpath ndref;
          s1 = emit (EvSkopeoUpload fpath ndref) (s\<lparr>skopeo_calls := Suc (skopeo_calls s)\<rparr>)
      in if ok then (True, s1)
         else skopeo_attempts w n fpath ndref (emit (EvSleep 5) s1))"

fun anaconda_attempts :: "world \<Rightarrow> nat \<Rightarrow> string \<Rightarrow> state \<Rightarrow> bool \<times> state" where
  "anaconda_attempts w 0 fpath s = (False, s)"
| "anaconda_attempts w (Suc n) fpath s =
     (let ok = anaconda_upload w (anaconda_calls s) fpath;
          s1 = emit (EvAnacondaUpload fpath) (s\<lparr>anaconda_calls := Suc (anaconda_calls s)\<rparr>)
      in if ok then (True, s1)
         else anaconda_attempts w n fpath (emit (EvSleep 5) s1))"

text \<open>
  The loops over the images and over the packages. They carry the list \<^verbatim>\<open>uploaded\<close>
  and the progress text \<^verbatim>\<open>comment\<close>, which is republished after every upload.
\<close>

fun upload_images ::
  "world \<Rightarrow> nat \<Rightarrow> string \<Rightarrow> (string \<times> string) list \<Rightarrow> string list \<times> string \<Rightarrow> state
     \<Rightarrow> (string list \<times> string) flow \<times> state" where
  "upload_images w comment_id tmpdir [] uc s = (Continue uc, s)"
| "upload_images w comment_id tmpdir ((fname, dref) # images) uc s =
     (let fpath = path_join tmpdir fname; ndref = ''biocontainers/'' @ dref in
      case skopeo_attempts w 5 fpath ndref s of
        (False, s1) \<Rightarrow> (Return (False, ''Failed to upload image to Quay.io''), s1)
      | (True, s1) \<Rightarrow>
          (let uploaded = fst uc @ [ndref];
               comment = snd uc @ ''- [x] Uploaded image '' @ ndref @ [newline];
               s2 = emit (EvUpdateComment comment_id comment) s1
           in case gh_update_comment w comment_id comment of
                Some e \<Rightarrow> (Raise e, s2)
              | None \<Rightarrow> upload_images w comment_id tmpdir images (uploaded, comment) s2))"

fun upload_packages ::
  "world \<Rightarrow> nat \<Rightarrow> string \<Rightarrow> string list \<Rightarrow> string list \<times> string \<Rightarrow> state
     \<Rightarrow> (string list \<times> string) flow \<times> state" where
  "upload_packages w comment_id tmpdir [] uc s = (Continue uc, s)"
| "upload_packages w comment_id tmpdir (fname # packages) uc s =
     (let fpath = path_join tmpdir fname in
      case anaconda_attempts w 5 fpath s of
        (False, s1) \<Rightarrow> (Return (False, ''Failed to upload package to Anaconda''), s1)
      | (True, s1) \<Rightarrow>
          (let uploaded = fst uc @ [fname];
               comment = snd uc @ ''- [x] Uploaded package '' @ fname @ [newline];
               s2 = emit (EvUpdateComment comment_id comment) s1
           in case gh_update_comment w comment_id comment of
                Some e \<Rightarrow> (Raise e, s2)
              | None \<Rightarrow> upload_packages w comment_id tmpdir packages (uploaded, comment) s2))"

subsection \<open>The scratch directory (lines 367 to 426)\<close>

text \<open>
  The body of \<^verbatim>\<open>with tempfile.TemporaryDirectory() as tmpdir\<close>: download, the test of
  \<^verbatim>\<open>done\<close>, the two upload loops and the lines of the commit message that list what was
  uploaded. It falls through with \<^verbatim>\<open>lines\<close> and \<^verbatim>\<open>comment\<close>.
\<close>

definition merge_pr_with_body ::
  "world \<Rightarrow> nat \<Rightarrow> string \<Rightarrow> merge_lists \<Rightarrow> string list \<Rightarrow> string \<Rightarrow> state
     \<Rightarrow> (string list \<times> string) flow \<times> state" where
  "merge_pr_with_body w comment_id tmpdir ml lines comment s =
     (case download_files w tmpdir (ml_files ml) s of
        (Inl e, s1) \<Rightarrow> (Raise e, s1)
      | (Inr done, s1) \<Rightarrow>
          (if \<not> done
           then (Return (False, ''Failed to download archives. Please try again later''), s1)
           else
             (case upload_images w comment_id tmpdir (ml_images ml) ([], comment) s1 of
                (Raise e, s2) \<Rightarrow> (Raise e, s2)
              | (Return r, s2) \<Rightarrow> (Return r, s2)
              | (Continue uc, s2) \<Rightarrow>
                  (case upload_packages w comment_id tmpdir (ml_packages ml) uc s2 of
                     (Raise e, s3) \<Rightarrow> (Raise e, s3)
                   | (Return r, s3) \<Rightarrow> (Return r, s3)
                   | (Continue (uploaded, comment1), s3) \<Rightarrow>
                       (Continue
                          (lines @ ['''', ''Package uploads complete: [ci skip]'']
                             @ map (\<lambda>pkg. '' - '' @ pkg) uploaded @ [''''],
                           comment1), s3)))))"

text \<open>
  The \<^verbatim>\<open>with\<close> statement removes the scratch directory however its body ends.
\<close>

definition merge_pr_transfer ::
  "world \<Rightarrow> nat \<Rightarrow> merge_lists \<Rightarrow> string list \<Rightarrow> string \<Rightarrow> state
     \<Rightarrow> (string list \<times> string) flow \<times> state" where
  "merge_pr_transfer w comment_id ml lines comment s =
     (let tmpdir = tmpdir_name w in
      case merge_pr_with_body w comment_id tmpdir ml lines comment (emit (EvMkTmpDir tmpdir) s) of
        (fl, s1) \<Rightarrow> (fl, emit (EvRmTmpDir tmpdir) s1))"

subsection \<open>Collecting the authors (lines 428 to 443)\<close>

text \<open>
  A Python \<^verbatim>\<open>set\<close> of strings is modelled as a list without repetitions, in the order of
  first insertion (\<^verbatim>\<open>list(s)\<close> and \<^verbatim>\<open>", ".join(s)\<close> read it in some order that Python does
  not specify; every statement below is about the set of the elements).
\<close>

definition pyset_add :: "string \<Rightarrow> string list \<Rightarrow> string list" where
  "pyset_add x xs = (if x \<in> set xs then xs else xs @ [x])"

record authors =
  au_coauthors :: "string list"
  au_coauthor_logins :: "string list"
  au_last_sha :: "string option"

text \<open>\<^verbatim>\<open>author_login = (commit['author'] or {}).get('login')\<close>\<close>

definition author_login :: "commit \<Rightarrow> string option" where
  "author_login c = (case c_author c of None \<Rightarrow> None | Some a \<Rightarrow> a)"

definition coauthor_line :: "commit \<Rightarrow> string" where
  "coauthor_line c = ''Co-authored-by: '' @ c_name c @ '' <'' @ c_email c @ ''>''"

text \<open>
  \<^verbatim>\<open>if author_login: coauthor_logins.add("@"+author_login) else: coauthor_logins.add(name)\<close>;
  the empty string is false in Python.
\<close>

definition coauthor_mention :: "commit \<Rightarrow> string" where
  "coauthor_mention c =
     (case author_login c of
        Some l \<Rightarrow> (if l \<noteq> [] then ''@'' @ l else c_name c)
      | None \<Rightarrow> c_name c)"

definition author_step :: "string \<Rightarrow> authors \<Rightarrow> commit \<Rightarrow> authors" where
  "author_step pr_author au c =
     (let au1 = au\<lparr>au_last_sha := Some (c_sha c)\<rparr> in
      if author_login c \<noteq> Some pr_author
      then au1\<lparr>au_coauthors := pyset_add (coauthor_line c) (au_coauthors au1),
               au_coauthor_logins := pyset_add (coauthor_mention c) (au_coauthor_logins au1)\<rparr>
      else au1)"

definition collect_authors :: "string \<Rightarrow> commit list \<Rightarrow> authors" where
  "collect_authors pr_author commits =
     foldl (author_step pr_author)
       \<lparr>au_coauthors = [], au_coauthor_logins = [], au_last_sha = None\<rparr> commits"

subsection \<open>The merge itself (lines 428 to 454)\<close>

definition merge_pr_finish ::
  "world \<Rightarrow> pull_request \<Rightarrow> nat \<Rightarrow> nat \<Rightarrow> string list \<Rightarrow> string \<Rightarrow> state
     \<Rightarrow> (bool \<times> string) outcome \<times> state" where
  "merge_pr_finish w pr pr_number comment_id lines comment s =
     (let pr_author = pr_user_login pr in
      case gh_iter_pr_commits w pr_number of
        Inl e \<Rightarrow> (Raised e, s)
      | Inr commits \<Rightarrow>
          (let au = collect_authors pr_author commits;
               lines1 = lines @ au_coauthors au;
               comment1 = comment @ ''- Creating squash merge''
                 @ (if au_coauthors au \<noteq> []
                    then '' (with co-authors '' @ str_join '', '' (au_coauthor_logins au) @ '')''
                    else '''')
                 @ [newline];
               s1 = emit (EvUpdateComment comment_id comment1) s
           in case gh_update_comment w comment_id comment1 of
                Some e \<Rightarrow> (Raised e, s1)
              | None \<Rightarrow>
                  (let message = (if lines1 \<noteq> [] then Some (str_join [newline] lines1) else None);
                       s2 = emit (EvMergePr pr_number (au_last_sha au) message) s1
                   in case gh_merge_pr w pr_number (au_last_sha au) message of
                        Inl e \<Rightarrow> (Raised e, s2)
                      | Inr r \<Rightarrow> (Returned r, s2))))"

subsection \<open>After the protection check (lines 324 to 454)\<close>

text \<open>The first progress text (lines 324 and 325) and the CI path (lines 328 to 335).\<close>

definition merge_started_comment :: string where
  "merge_started_comment =
     ''Upload & Merge started. Reload page to view progress.'' @ [newline]
       @ ''- [x] Checks OK'' @ [newline]"

text \<open>
  Line 362: \<^verbatim>\<open>"- [x] Fetching {} packages and {} images\\n".format(len(packages), len(images))\<close>
\<close>

definition merge_fetching_line :: "merge_lists \<Rightarrow> string" where
  "merge_fetching_line ml =
     ''- [x] Fetching '' @ str_nat (length (ml_packages ml)) @ '' packages and ''
       @ str_nat (length (ml_images ml)) @ '' images'' @ [newline]"

definition circle_branch :: "world \<Rightarrow> pull_request \<Rightarrow> nat \<Rightarrow> string" where
  "circle_branch w pr pr_number =
     (let head_ref = pr_head_ref pr;
          head_user = pr_head_repo_owner_login pr
      in if head_user = gh_user w then head_ref else ''pull/'' @ str_nat pr_number)"

definition merge_pr_checked ::
  "world \<Rightarrow> pull_request \<Rightarrow> nat \<Rightarrow> nat \<Rightarrow> state \<Rightarrow> (bool \<times> string) outcome \<times> state" where
  "merge_pr_checked w pr pr_number comment_id s =
     (let comment = merge_started_comment;
          s1 = emit (EvUpdateComment comment_id comment) s
      in case gh_update_comment w comment_id comment of
           Some e \<Rightarrow> (Raised e, s1)
         | None \<Rightarrow>
             (let head_sha = pr_head_sha pr;
                  branch = circle_branch w pr pr_number
              in case circle_get_artifacts w branch head_sha of
                   Inl e \<Rightarrow> (Raised e, s1)
                 | Inr artifacts \<Rightarrow>
                     (let ml = merge_classify artifacts in
                      if ml_files ml = []
                      then (Returned (False, ''PR did not build any packages.''), s1)
                      else
                        (let comment1 = comment @ merge_fetching_line ml;
                             s2 = emit (EvUpdateComment comment_id comment1) s1
                         in case gh_update_comment w comment_id comment1 of
                              Some e \<Rightarrow> (Raised e, s2)
                            | None \<Rightarrow>
                                (case merge_pr_transfer w comment_id ml [] comment1 s2 of
                                   (Raise e, s3) \<Rightarrow> (Raised e, s3)
                                 | (Return r, s3) \<Rightarrow> (Returned r, s3)
                                 | (Continue (lines, comment2), s3) \<Rightarrow>
                                     merge_pr_finish w pr pr_number comment_id lines comment2 s3)))))"

subsection \<open>The protection check and the retry (lines 314 to 323)\<close>

text \<open>
  Modelled from the spec: the task queue's \<^verbatim>\<open>self.retry(countdown, max_retries)\<close>, which is
  not part of the task module. The spec gives the merge task a budget of 15 re-runs, 20
  seconds apart. The call always raises: \<^verbatim>\<open>MaxRetriesExceededError\<close> when the number of
  re-runs already made (\<^verbatim>\<open>self.request.retries\<close>, 0 in the first run) plus one exceeds
  \<^verbatim>\<open>max_retries\<close>, and otherwise the \<^verbatim>\<open>Retry\<close> signal, after the task has been queued
  again with its counter increased by one.
\<close>

datatype retry_raise = RaiseRetry nat | RaiseMaxRetriesExceededError

definition task_retry :: "nat \<Rightarrow> nat \<Rightarrow> nat \<Rightarrow> retry_raise" where
  "task_retry retries countdown max_retries =
     (if max_retries < retries + 1 then RaiseMaxRetriesExceededError else RaiseRetry countdown)"

text \<open>
  \<^verbatim>\<open>merge_pr(self, pr_number, comment_id, ghapi)\<close>; \<open>retries\<close> is \<^verbatim>\<open>self.request.retries\<close>.
  \<^verbatim>\<open>state\<close> is \<^verbatim>\<open>None\<close>, \<^verbatim>\<open>False\<close> or \<^verbatim>\<open>True\<close>.
\<close>

definition merge_pr ::
  "world \<Rightarrow> nat \<Rightarrow> nat \<Rightarrow> nat \<Rightarrow> state \<Rightarrow> (bool \<times> string) outcome \<times> state" where
  "merge_pr w retries pr_number comment_id s =
     (case gh_get_prs w pr_number of
        Inl e \<Rightarrow> (Raised e, s)
      | Inr pr \<Rightarrow>
          (case gh_check_protections w pr_number (pr_head_sha pr) of
             Inl e \<Rightarrow> (Raised e, s)
           | Inr (state, message) \<Rightarrow>
               (case state of
                  None \<Rightarrow>
                    (case task_retry retries 20 15 of
                       RaiseMaxRetriesExceededError \<Rightarrow>
                         (Returned (False,
                            ''PR cannot be merged at this time. Please try again later''), s)
                     | RaiseRetry countdown \<Rightarrow> (RetryTask countdown, s))
                | Some False \<Rightarrow> (Returned (False, message), s)
                | Some True \<Rightarrow> merge_pr_checked w pr pr_number comment_id s)))"

text \<open>
  Modelled from the spec: the task queue runs the task again for every \<^verbatim>\<open>Retry\<close> signal,
  with the counter of re-runs increased by one. \<open>ws n\<close> is the environment as the run
  with counter \<open>n\<close> finds it (the answer of the protection check may change between
  runs).
\<close>

function run_merge_task ::
  "(nat \<Rightarrow> world) \<Rightarrow> nat \<Rightarrow> nat \<Rightarrow> nat \<Rightarrow> state \<Rightarrow> (bool \<times> string) outcome \<times> state" where
  "run_merge_task ws retries pr_number comment_id s =
     (let r = merge_pr (ws retries) retries pr_number comment_id s in
      case fst r of
        RetryTask countdown \<Rightarrow> run_merge_task ws (Suc retries) pr_number comment_id (snd r)
      | _ \<Rightarrow> r)"
  by pat_completeness auto
termination
proof (relation "measure (\<lambda>(ws, retries, pr_number, comment_id, s). 16 - retries)")
  show "wf (measure (\<lambda>(ws, retries, pr_number, comment_id, s). 16 - retries))"
    by simp
next
  fix ws :: "nat \<Rightarrow> world" and retries pr_number comment_id :: nat and s :: state
    and r :: "(bool \<times> string) outcome \<times> state" and countdown :: nat
  assume r: "r = merge_pr (ws retries) retries pr_number comment_id s"
    and retry: "fst r = RetryTask countdown"
  have finish: "fst (merge_pr_finish w pr n cid lines comment t) \<noteq> RetryTask countdown"
    for w pr n cid lines comment t
    by (simp add: merge_pr_finish_def Let_def split: sum.split option.split)
  have checked: "fst (merge_pr_checked w pr n cid t) \<noteq> RetryTask countdown" for w pr n cid t
    by (simp add: merge_pr_checked_def Let_def finish
        split: sum.split option.split prod.split flow.split)
  from r retry checked have "retries < 15"
    by (auto simp: merge_pr_def task_retry_def
        split: sum.splits option.splits prod.splits bool.splits if_splits)
  then show "((ws, Suc retries, pr_number, comment_id, snd r), (ws, retries, pr_number, comment_id, s))
      \<in> measure (\<lambda>(ws, retries, pr_number, comment_id, s). 16 - retries)"
    by simp
qed

declare run_merge_task.simps [simp del]

section \<open>The scoped checkout\<close>

text \<open>
  The git library, the recipes and the process's directory operations, as functions
  that give the answer of each call. \<^verbatim>\<open>TempBiocondaRepo(...)\<close> answers with the directory
  of the new temporary clone; \<^verbatim>\<open>create_local_branch\<close> answers whether it found a branch.
  \<open>global_text\<close> is the text of a name bound at module level (see \<open>bump_message\<close>).
\<close>

record recipe =
  r_str :: string
  r_build_number :: int

record git_env =
  temp_repo :: "string option \<Rightarrow> string option \<Rightarrow> exn + string"
  git_set_user :: "exn option"
  os_chdir :: "string \<Rightarrow> exn option"
  git_create_local_branch :: "string \<Rightarrow> string option \<Rightarrow> exn + bool"
  git_branch_checkout :: "exn option"
  git_get_changed_recipes :: "exn + string list"
  recipe_from_file :: "string \<Rightarrow> exn + recipe"
  recipe_reset_buildnumber :: "string \<Rightarrow> int \<Rightarrow> exn option"
  recipe_save :: "string \<Rightarrow> exn option"
  git_commit_and_push_changes :: "string list \<Rightarrow> string \<Rightarrow> exn + bool"
  global_text :: "string \<Rightarrow> string"

text \<open>The fields of a \<^verbatim>\<open>Checkout\<close> object that change, and \<^verbatim>\<open>__init__\<close>.\<close>

record checkout =
  ck_ref :: "string option"
  ck_issue_number :: "nat option"
  ck_orig_cwd :: "string option"
  ck_git :: "string option"

definition Checkout_init :: "string option \<Rightarrow> nat option \<Rightarrow> checkout" where
  "Checkout_init ref issue_number =
     \<lparr>ck_ref = ref, ck_issue_number = issue_number, ck_orig_cwd = None, ck_git = None\<rparr>"

definition py_str_opt :: "string option \<Rightarrow> string" where
  "py_str_opt x = (case x of None \<Rightarrow> ''None'' | Some v \<Rightarrow> v)"

text \<open>
  Lines 67 to 77: \<^verbatim>\<open>if self.issue_number\<close> (a number other than 0) looks the pull request
  up; the result is \<^verbatim>\<open>(fork_user, fork_repo, branch_name, ref)\<close>.
\<close>

definition checkout_target ::
  "world \<Rightarrow> checkout \<Rightarrow> exn + (string option \<times> string option \<times> string \<times> string option)" where
  "checkout_target w ck =
     (case ck_issue_number ck of
        None \<Rightarrow> Inr (None, None, ''unknown'', ck_ref ck)
      | Some n \<Rightarrow>
          (if n \<noteq> 0
           then (case gh_get_prs w n of
                   Inl e \<Rightarrow> Inl e
                 | Inr prs \<Rightarrow>
                     Inr (Some (pr_head_user_login prs), Some (pr_head_repo_name prs),
                          pr_head_ref prs, None))
           else Inr (None, None, ''unknown'', ck_ref ck)))"

text \<open>
  The \<^verbatim>\<open>try\<close> block of \<^verbatim>\<open>__aenter__\<close> (lines 67 to 97): the exception that ends it or the
  clone it returns, with the object and the state as they are at that point.
\<close>

definition aenter_try ::
  "world \<Rightarrow> git_env \<Rightarrow> checkout \<Rightarrow> state \<Rightarrow> (exn + string) \<times> checkout \<times> state" where
  "aenter_try w g ck s =
     (case checkout_target w ck of
        Inl e \<Rightarrow> (Inl e, ck, s)
      | Inr (fork_user, fork_repo, branch_name, ref) \<Rightarrow>
          (case temp_repo g fork_user fork_repo of
             Inl e \<Rightarrow> (Inl e, ck, s)
           | Inr dir \<Rightarrow>
               (let ck1 = ck\<lparr>ck_git := Some dir\<rparr>;
                    s1 = emit (EvClone dir) (s\<lparr>clones := dir # clones s\<rparr>)
                in case git_set_user g of
                     Some e \<Rightarrow> (Inl e, ck1, s1)
                   | None \<Rightarrow>
                       (let ck2 = ck1\<lparr>ck_orig_cwd := Some (cwd s1)\<rparr> in
                        case os_chdir g dir of
                          Some e \<Rightarrow> (Inl e, ck2, s1)
                        | None \<Rightarrow>
                            (let s2 = s1\<lparr>cwd := dir\<rparr> in
                             case git_create_local_branch g branch_name ref of
                               Inl e \<Rightarrow> (Inl e, ck2, s2)
                             | Inr branch \<Rightarrow>
                                 (if \<not> branch
                                  then (Inl (RuntimeError (''Failed to find '' @ branch_name
                                          @ '':'' @ py_str_opt ref @ '' in '' @ dir)), ck2, s2)
                                  else (case git_branch_checkout g of
                                          Some e \<Rightarrow> (Inl e, ck2, s2)
                                        | None \<Rightarrow> (Inr dir, ck2, s2))))))))"

text \<open>
  \<^verbatim>\<open>__aenter__\<close>: \<^verbatim>\<open>except Exception\<close> logs and returns \<^verbatim>\<open>None\<close>. The result is on the
  right of the sum when the method returns, on the left when it raises.
\<close>

definition aenter ::
  "world \<Rightarrow> git_env \<Rightarrow> checkout \<Rightarrow> state \<Rightarrow> (exn + string option) \<times> checkout \<times> state" where
  "aenter w g ck s =
     (case aenter_try w g ck s of
        (Inl e, ck1, s1) \<Rightarrow> (Inr None, ck1, emit (EvLog ''Error while checking out'') s1)
      | (Inr dir, ck1, s1) \<Rightarrow> (Inr (Some dir), ck1, s1))"

text \<open>
  \<^verbatim>\<open>__aexit__\<close>: \<^verbatim>\<open>if self.orig_cwd: os.chdir(self.orig_cwd)\<close> (the empty string is false),
  then \<^verbatim>\<open>if self.git: self.git.close()\<close>. An exception of \<^verbatim>\<open>os.chdir\<close> leaves the method.
\<close>

definition aexit_close :: "checkout \<Rightarrow> state \<Rightarrow> state" where
  "aexit_close ck s =
     (case ck_git ck of
        None \<Rightarrow> s
      | Some dir \<Rightarrow> emit (EvCloseClone dir) (s\<lparr>clones := removeAll dir (clones s)\<rparr>))"

definition aexit :: "git_env \<Rightarrow> checkout \<Rightarrow> state \<Rightarrow> exn option \<times> state" where
  "aexit g ck s =
     (case ck_orig_cwd ck of
        None \<Rightarrow> (None, aexit_close ck s)
      | Some d \<Rightarrow>
          (if d \<noteq> []
           then (case os_chdir g d of
                   Some e \<Rightarrow> (Some e, s)
                 | None \<Rightarrow> (None, aexit_close ck (s\<lparr>cwd := d\<rparr>)))
           else (None, aexit_close ck s)))"

text \<open>
  \<^verbatim>\<open>async with Checkout(...) as git: body\<close>. \<^verbatim>\<open>__aexit__\<close> runs however the body ends (it
  falls through, it returns, it raises) and returns nothing, so the body's result
  stands; it does not run when \<^verbatim>\<open>__aenter__\<close> raises.
\<close>

definition async_with ::
  "world \<Rightarrow> git_env \<Rightarrow> checkout \<Rightarrow> (string option \<Rightarrow> state \<Rightarrow> 'a outcome \<times> state) \<Rightarrow> state
     \<Rightarrow> 'a outcome \<times> checkout \<times> state" where
  "async_with w g ck body s =
     (case aenter w g ck s of
        (Inl e, ck1, s1) \<Rightarrow> (Raised e, ck1, s1)
      | (Inr git, ck1, s1) \<Rightarrow>
          (case body git s1 of
             (r, s2) \<Rightarrow>
               (case aexit g ck1 s2 of
                  (Some e, s3) \<Rightarrow> (Raised e, ck1, s3)
                | (None, s3) \<Rightarrow> (r, ck1, s3))))"

section \<open>The bump task\<close>

text \<open>
  The loop \<^verbatim>\<open>for meta_fn in recipes\<close> (lines 144 to 147). It carries the local variable
  \<^verbatim>\<open>recipe\<close>, which is unbound (\<open>None\<close>) until the first iteration has assigned it.
\<close>

fun bump_recipes ::
  "git_env \<Rightarrow> string list \<Rightarrow> recipe option \<Rightarrow> state \<Rightarrow> (exn + recipe option) \<times> state" where
  "bump_recipes g [] recipe_var s = (Inr recipe_var, s)"
| "bump_recipes g (meta_fn # recipes) recipe_var s =
     (case recipe_from_file g meta_fn of
        Inl e \<Rightarrow> (Inl e, s)
      | Inr recipe \<Rightarrow>
          (let n = r_build_number recipe + 1;
               s1 = emit (EvResetBuildnumber meta_fn n) s
           in case recipe_reset_buildnumber g meta_fn n of
                Some e \<Rightarrow> (Inl e, s1)
              | None \<Rightarrow>
                  (let s2 = emit (EvSave meta_fn) s1 in
                   case recipe_save g meta_fn of
                     Some e \<Rightarrow> (Inl e, s2)
                   | None \<Rightarrow>
                       bump_recipes g recipes (Some (recipe\<lparr>r_build_number := n\<rparr>)) s2)))"

text \<open>
  The names bound at the top level of the task module: its imports, its constants, the
  class and the tasks. A name that a function reads and never assigns is looked up here
  (and then among Python's builtins, which hold none of the names read below).
\<close>

definition module_globals :: "string list" where
  "module_globals =
     [''logging'', ''os'', ''sys'', ''time'', ''types'', ''namedtuple'', ''Enum'', ''Tuple'',
      ''Set'', ''tempfile'', ''re'', ''asyncio'', ''celery'', ''BOT_NAME'', ''BOT_EMAIL'',
      ''CIRCLE_TOKEN'', ''QUAY_LOGIN'', ''ANACONDA_TOKEN'', ''utils'', ''Recipe'',
      ''TempBiocondaRepo'', ''CheckRunStatus'', ''CheckRunConclusion'', ''AsyncCircleAPI'',
      ''anaconda_upload'', ''skopeo_upload'', ''MaxRetriesExceededError'', ''logger'',
      ''PRInfo'', ''Image'', ''Package'', ''Arch'', ''PACKAGE_RE'', ''IMAGE_RE'', ''Checkout'',
      ''get_latest_pr_commit'', ''create_check_run'', ''bump'', ''lint_check'',
      ''check_circle_artifacts'', ''trigger_circle_rebuild'', ''merge_pr'', ''post_result'']"

text \<open>
  Line 148, \<^verbatim>\<open>msg = f"Bump {recipe} buildno to {buildno}"\<close>: the local \<^verbatim>\<open>recipe\<close> is read
  first (\<^verbatim>\<open>UnboundLocalError\<close> when it is unbound), then \<^verbatim>\<open>buildno\<close>, which the function
  never assigns and which is therefore a global name (\<^verbatim>\<open>NameError\<close> when it is unbound).
\<close>

definition bump_message :: "git_env \<Rightarrow> recipe option \<Rightarrow> exn + string" where
  "bump_message g recipe_var =
     (case recipe_var of
        None \<Rightarrow> Inl (UnboundLocalError ''recipe'')
      | Some recipe \<Rightarrow>
          (if ''buildno'' \<in> set module_globals
           then Inr (''Bump '' @ r_str recipe @ '' buildno to '' @ global_text g ''buildno'')
           else Inl (NameError ''buildno'')))"

text \<open>The body of the \<^verbatim>\<open>async with\<close> statement of \<^verbatim>\<open>bump\<close> (lines 140 to 150).\<close>

definition bump_body :: "git_env \<Rightarrow> string option \<Rightarrow> state \<Rightarrow> unit outcome \<times> state" where
  "bump_body g git s =
     (case git of
        None \<Rightarrow> (Returned (), emit (EvLog ''Failed to checkout'') s)
      | Some dir \<Rightarrow>
          (case git_get_changed_recipes g of
             Inl e \<Rightarrow> (Raised e, s)
           | Inr recipes \<Rightarrow>
               (case bump_recipes g recipes None s of
                  (Inl e, s1) \<Rightarrow> (Raised e, s1)
                | (Inr recipe_var, s1) \<Rightarrow>
                    (case bump_message g recipe_var of
                       Inl e \<Rightarrow> (Raised e, s1)
                     | Inr msg \<Rightarrow>
                         (let s2 = emit (EvCommitPush recipes msg) s1 in
                          case git_commit_and_push_changes g recipes msg of
                            Inl e \<Rightarrow> (Raised e, s2)
                          | Inr pushed \<Rightarrow>
                              (if \<not> pushed
                               then (Returned (), emit (EvLog ''Failed to push?!'') s2)
                               else (Returned (), s2)))))))"

text \<open>\<^verbatim>\<open>bump(issue_number, ghapi)\<close>\<close>

definition bump :: "world \<Rightarrow> git_env \<Rightarrow> nat \<Rightarrow> state \<Rightarrow> unit outcome \<times> state" where
  "bump w g issue_number s =
     (case async_with w g (Checkout_init None (Some issue_number)) (bump_body g)
             (emit (EvLog ''Processing bump command'') s) of
        (r, ck, s1) \<Rightarrow> (r, s1))"

text \<open>The events that push a commit.\<close>

fun is_commit_push :: "event \<Rightarrow> bool" where
  "is_commit_push (EvCommitPush recipes msg) = True"
| "is_commit_push e = False"

section \<open>What the loops compute\<close>

text \<open>
  The package that the classification loop of \<^verbatim>\<open>check_circle_artifacts\<close> builds for one
  artifact, given the set of all URLs; the image it builds; and the architectures it
  enters for a repository URL. They serve to state what the loop computes.
\<close>

definition package_of :: "string set \<Rightarrow> artifact \<Rightarrow> Package option" where
  "package_of urls a =
     (case PACKAGE_RE_match (fst (snd a)) of
        None \<Rightarrow> None
      | Some (repo_url, arch, fname) \<Rightarrow>
          Some \<lparr>pkg_arch = arch, pkg_fname = fname, pkg_url = fst (snd a),
                pkg_repodata_md =
                  (if repodata_url_of repo_url arch \<in> urls
                   then ''[repodata.json]('' @ repodata_url_of repo_url arch @ '')'' else '''')\<rparr>)"

definition image_of :: "artifact \<Rightarrow> Image option" where
  "image_of a =
     (case PACKAGE_RE_match (fst (snd a)) of
        Some g \<Rightarrow> None
      | None \<Rightarrow>
          (case IMAGE_RE_match (fst (snd a)) of
             None \<Rightarrow> None
           | Some (name, tag) \<Rightarrow> Some \<lparr>img_url = fst (snd a), img_name = name, img_tag = tag\<rparr>))"

definition repo_archs :: "string set \<Rightarrow> artifact list \<Rightarrow> string \<Rightarrow> string set" where
  "repo_archs urls arts repo =
     {arch. \<exists>a \<in> set arts. \<exists>fname. PACKAGE_RE_match (fst (snd a)) = Some (repo, arch, fname)
              \<and> repodata_url_of repo arch \<in> urls}"

definition archs_of :: "(string \<rightharpoonup> string set) \<Rightarrow> string \<Rightarrow> string set" where
  "archs_of repos repo = (case repos repo of None \<Rightarrow> {} | Some s \<Rightarrow> s)"

section \<open>Kinds of events\<close>

text \<open>The events of a download or an upload.\<close>

fun is_transfer :: "event \<Rightarrow> bool" where
  "is_transfer (EvMkTmpDir d) = True"
| "is_transfer (EvOpen f) = True"
| "is_transfer (EvFetch urls) = True"
| "is_transfer (EvSkopeoUpload f d) = True"
| "is_transfer (EvAnacondaUpload f) = True"
| "is_transfer e = False"

section \<open>A concrete environment\<close>

text \<open>
  An environment in which every call succeeds, a pull request and a starting state; the
  examples below change single answers of it.
\<close>

definition example_pr :: pull_request where
  "example_pr =
     \<lparr>pr_head_ref = ''fix'', pr_head_sha = ''c0ffee'', pr_head_user_login = ''ann'',
      pr_head_repo_name = ''recipes'', pr_head_repo_owner_login = ''ann'',
      pr_user_login = ''ann''\<rparr>"

definition example_world :: world where
  "example_world =
     \<lparr>gh_user = ''bioconda'',
      gh_get_prs = (\<lambda>n. Inr example_pr),
      gh_check_protections = (\<lambda>n sha. Inr (Some True, ''ok'')),
      gh_update_comment = (\<lambda>cid c. None),
      gh_iter_pr_commits = (\<lambda>n. Inr []),
      gh_merge_pr = (\<lambda>n sha msg. Inr (True, ''merged'')),
      circle_get_artifacts = (\<lambda>b sha. Inr []),
      tmpdir_name = ''/tmp/t'',
      fs_open = (\<lambda>p. None),
      async_fetch = (\<lambda>urls. None),
      skopeo_upload = (\<lambda>k f d. True),
      anaconda_upload = (\<lambda>k f. True)\<rparr>"

definition example_state :: state where
  "example_state =
     \<lparr>events = [], cwd = ''/srv/bot'', clones = [], skopeo_calls = 0, anaconda_calls = 0\<rparr>"

definition example_git_env :: git_env where
  "example_git_env =
     \<lparr>temp_repo = (\<lambda>fork_user fork_repo. Inr ''/tmp/clone''),
      git_set_user = None,
      os_chdir = (\<lambda>d. None),
      git_create_local_branch = (\<lambda>branch_name ref. Inr True),
      git_branch_checkout = None,
      git_get_changed_recipes = Inr [''recipes/x/meta.yaml''],
      recipe_from_file = (\<lambda>meta_fn. Inr \<lparr>r_str = ''x'', r_build_number = 0\<rparr>),
      recipe_reset_buildnumber = (\<lambda>meta_fn n. None),
      recipe_save = (\<lambda>meta_fn. None),
      git_commit_and_push_changes = (\<lambda>recipes msg. Inr True),
      global_text = (\<lambda>name. name)\<rparr>"

section \<open>Answers of the protection check\<close>

text \<open>
  The pull request is found and the protection check answers \<^verbatim>\<open>(None, message)\<close>
  (\<open>indeterminate\<close>), or \<^verbatim>\<open>(False, m)\<close> (\<open>refused\<close>).
\<close>

definition indeterminate :: "world \<Rightarrow> nat \<Rightarrow> bool" where
  "indeterminate w pr_number =
     (case gh_get_prs w pr_number of
        Inl e \<Rightarrow> False
      | Inr pr \<Rightarrow>
          (case gh_check_protections w pr_number (pr_head_sha pr) of
             Inl e \<Rightarrow> False
           | Inr (state, message) \<Rightarrow> state = None))"

definition refused :: "world \<Rightarrow> nat \<Rightarrow> string \<Rightarrow> bool" where
  "refused w pr_number m =
     (case gh_get_prs w pr_number of
        Inl e \<Rightarrow> False
      | Inr pr \<Rightarrow>
          (case gh_check_protections w pr_number (pr_head_sha pr) of
             Inl e \<Rightarrow> False
           | Inr (state, message) \<Rightarrow> state = Some False \<and> message = m))"

section \<open>The artifact patterns: what a match says about the URL\<close>

lemma strip_prefix_Some: "strip_prefix p s = Some r \<Longrightarrow> s = p @ r"
  by (auto simp: strip_prefix_def split: if_splits) (metis append_take_drop_id)

lemma arch_alt_Some:
  "arch_alt as s = Some (a, f) \<Longrightarrow> s = a @ ''/'' @ f \<and> a \<in> set as \<and> suffix ''.tar.bz2'' f"
  by (induction as) (auto split: option.splits if_splits dest: strip_prefix_Some)

lemma package_tail_Some:
  "package_tail pre s = Some (r, a, f) \<Longrightarrow>
     pre @ s = r @ ''/'' @ a @ ''/'' @ f \<and> suffix ''packages'' r \<and> a \<in> set Arch
       \<and> suffix ''.tar.bz2'' f"
  by (auto simp: package_tail_def suffix_def split: option.splits
      dest!: strip_prefix_Some arch_alt_Some)

lemma package_scan_Some:
  "package_scan pre s = Some (r, a, f) \<Longrightarrow>
     pre @ s = r @ ''/'' @ a @ ''/'' @ f \<and> suffix ''packages'' r \<and> a \<in> set Arch
       \<and> suffix ''.tar.bz2'' f"
proof (induction s arbitrary: pre)
  case Nil
  then show ?case using package_tail_Some [of pre "[]" r a f] by simp
next
  case (Cons c cs)
  show ?case
  proof (cases "package_scan (pre @ [c]) cs")
    case None
    with Cons.prems have "package_tail pre (c # cs) = Some (r, a, f)" by simp
    then show ?thesis by (rule package_tail_Some)
  next
    case (Some g)
    with Cons.prems have "package_scan (pre @ [c]) cs = Some (r, a, f)" by simp
    from Cons.IH [OF this] show ?thesis by simp
  qed
qed

lemma PACKAGE_RE_match_Some:
  "PACKAGE_RE_match url = Some (r, a, f) \<Longrightarrow>
     dollar_body url = r @ ''/'' @ a @ ''/'' @ f \<and> suffix ''packages'' r \<and> a \<in> set Arch
       \<and> suffix ''.tar.bz2'' f"
  using package_scan_Some [of "[]" "dollar_body url" r a f]
  by (simp add: PACKAGE_RE_match_def Let_def split: if_splits)

section \<open>Artifact collection: the repodata link and the order of the artifacts\<close>

lemma classify_step_packages:
  "cl_packages (classify_step urls cl a) =
     cl_packages cl @ (case package_of urls a of None \<Rightarrow> [] | Some P \<Rightarrow> [P])"
  by (cases a) (auto simp: classify_step_def package_of_def Let_def split: option.splits)

lemma classify_step_images:
  "cl_images (classify_step urls cl a) =
     cl_images cl @ (case image_of a of None \<Rightarrow> [] | Some i \<Rightarrow> [i])"
  by (cases a) (auto simp: classify_step_def image_of_def Let_def split: option.splits)

lemma foldl_classify_packages:
  "cl_packages (foldl (classify_step urls) cl arts) =
     cl_packages cl @ List.map_filter (package_of urls) arts"
  by (induction arts arbitrary: cl)
     (auto simp: classify_step_packages List.map_filter_simps split: option.splits)

lemma foldl_classify_images:
  "cl_images (foldl (classify_step urls) cl arts) = cl_images cl @ List.map_filter image_of arts"
  by (induction arts arbitrary: cl)
     (auto simp: classify_step_images List.map_filter_simps split: option.splits)

lemma classify_step_repos:
  "cl_repos (classify_step urls cl a) repo =
     (if repo_archs urls [a] repo = {} then cl_repos cl repo
      else Some (archs_of (cl_repos cl) repo \<union> repo_archs urls [a] repo))"
  by (cases a)
     (auto simp: classify_step_def repo_archs_def archs_of_def Let_def split: option.splits)

lemma repo_archs_Cons:
  "repo_archs urls (a # arts) repo = repo_archs urls [a] repo \<union> repo_archs urls arts repo"
  by (auto simp: repo_archs_def)

lemma foldl_classify_repos:
  "cl_repos (foldl (classify_step urls) cl arts) repo =
     (if repo_archs urls arts repo = {} then cl_repos cl repo
      else Some (archs_of (cl_repos cl) repo \<union> repo_archs urls arts repo))"
proof (induction arts arbitrary: cl)
  case Nil
  show ?case by (simp add: repo_archs_def)
next
  case (Cons a arts)
  show ?case
    by (simp add: Cons.IH classify_step_repos)
       (simp add: repo_archs_Cons [of urls a arts repo] archs_of_def Un_assoc)
qed

lemma mset_map_filter:
  "mset (List.map_filter f xs) =
     image_mset (the \<circ> f) (filter_mset (\<lambda>x. f x \<noteq> None) (mset xs))"
  by (simp add: List.map_filter_def)

lemma circle_classify_packages:
  "cl_packages (circle_classify arts) = List.map_filter (package_of (artifact_urls arts)) arts"
  by (simp add: circle_classify_def foldl_classify_packages)

lemma circle_classify_images:
  "cl_images (circle_classify arts) = List.map_filter image_of arts"
  by (simp add: circle_classify_def foldl_classify_images)

lemma circle_classify_repos:
  "cl_repos (circle_classify arts) repo =
     (if repo_archs (artifact_urls arts) arts repo = {} then None
      else Some (repo_archs (artifact_urls arts) arts repo))"
  by (simp add: circle_classify_def foldl_classify_repos archs_of_def)

lemma circle_classify_permutation:
  assumes "mset arts' = mset arts"
  shows "mset (cl_packages (circle_classify arts')) = mset (cl_packages (circle_classify arts))"
    and "mset (cl_images (circle_classify arts')) = mset (cl_images (circle_classify arts))"
    and "cl_repos (circle_classify arts') = cl_repos (circle_classify arts)"
proof -
  from assms have set_eq: "set arts' = set arts"
    by (rule mset_eq_setD)
  then have urls: "artifact_urls arts' = artifact_urls arts"
    by (simp add: artifact_urls_def)
  show "mset (cl_packages (circle_classify arts')) = mset (cl_packages (circle_classify arts))"
    by (simp add: circle_classify_packages mset_map_filter urls assms)
  show "mset (cl_images (circle_classify arts')) = mset (cl_images (circle_classify arts))"
    by (simp add: circle_classify_images mset_map_filter assms)
  have "repo_archs (artifact_urls arts') arts' repo = repo_archs (artifact_urls arts) arts repo"
    for repo
    by (simp add: repo_archs_def urls set_eq)
  then show "cl_repos (circle_classify arts') = cl_repos (circle_classify arts)"
    by (intro ext) (simp add: circle_classify_repos)
qed

lemma circle_classify_package_link:
  assumes "P \<in> set (cl_packages (circle_classify arts))"
  shows "\<exists>repo. PACKAGE_RE_match (pkg_url P) = Some (repo, pkg_arch P, pkg_fname P)
           \<and> pkg_url P \<in> artifact_urls arts
           \<and> pkg_repodata_md P =
               (if repo @ ''/'' @ pkg_arch P @ ''/repodata.json'' \<in> artifact_urls arts
                then ''[repodata.json]('' @ repo @ ''/'' @ pkg_arch P @ ''/repodata.json)''
                else '''')"
proof -
  from assms obtain a where a: "a \<in> set arts" and P: "package_of (artifact_urls arts) a = Some P"
    by (auto simp: circle_classify_packages List.map_filter_def)
  from P obtain repo arch fname where m: "PACKAGE_RE_match (fst (snd a)) = Some (repo, arch, fname)"
    by (auto simp: package_of_def split: option.splits)
  with P have fields: "pkg_arch P = arch" "pkg_fname P = fname" "pkg_url P = fst (snd a)"
    and md: "pkg_repodata_md P =
       (if repodata_url_of repo arch \<in> artifact_urls arts
        then ''[repodata.json]('' @ repodata_url_of repo arch @ '')'' else '''')"
    by (auto simp: package_of_def)
  from a have "fst (snd a) \<in> artifact_urls arts"
    by (auto simp: artifact_urls_def)
  with m fields md show ?thesis
    by (intro exI [of _ repo]) (simp add: repodata_url_of_def)
qed

text \<open>
  Claim C5, as amended. Every package of the classification comes from an artifact whose
  URL has the form \<open>repo/arch/fname\<close> with \<open>repo\<close> ending in \<^verbatim>\<open>packages\<close> (the first group
  of the pattern includes the \<^verbatim>\<open>packages\<close> component), and it carries a repodata link if
  and only if the URL \<open>repo/arch/repodata.json\<close>, the file next to the package, is among
  the URLs of the same batch. The classification does not depend on the order of the
  artifacts: a permutation of the artifact list gives the same packages and the same
  images up to their order in the lists, and the same dictionary of repositories.
\<close>

theorem circle_classify_repodata_two_pass:
  "(\<forall>P \<in> set (cl_packages (circle_classify arts)).
      \<exists>repo. PACKAGE_RE_match (pkg_url P) = Some (repo, pkg_arch P, pkg_fname P)
        \<and> dollar_body (pkg_url P) = repo @ ''/'' @ pkg_arch P @ ''/'' @ pkg_fname P
        \<and> suffix ''packages'' repo
        \<and> (pkg_repodata_md P \<noteq> [] \<longleftrightarrow>
             repo @ ''/'' @ pkg_arch P @ ''/repodata.json'' \<in> artifact_urls arts))
   \<and> (mset arts' = mset arts \<longrightarrow>
        mset (cl_packages (circle_classify arts')) = mset (cl_packages (circle_classify arts))
        \<and> mset (cl_images (circle_classify arts')) = mset (cl_images (circle_classify arts))
        \<and> cl_repos (circle_classify arts') = cl_repos (circle_classify arts))"
proof (intro conjI ballI impI)
  fix P
  assume "P \<in> set (cl_packages (circle_classify arts))"
  from circle_classify_package_link [OF this] obtain repo where
    m: "PACKAGE_RE_match (pkg_url P) = Some (repo, pkg_arch P, pkg_fname P)"
    and md: "pkg_repodata_md P =
       (if repo @ ''/'' @ pkg_arch P @ ''/repodata.json'' \<in> artifact_urls arts
        then ''[repodata.json]('' @ repo @ ''/'' @ pkg_arch P @ ''/repodata.json)''
        else '''')"
    by blast
  from PACKAGE_RE_match_Some [OF m] md
  show "\<exists>repo. PACKAGE_RE_match (pkg_url P) = Some (repo, pkg_arch P, pkg_fname P)
        \<and> dollar_body (pkg_url P) = repo @ ''/'' @ pkg_arch P @ ''/'' @ pkg_fname P
        \<and> suffix ''packages'' repo
        \<and> (pkg_repodata_md P \<noteq> [] \<longleftrightarrow>
             repo @ ''/'' @ pkg_arch P @ ''/repodata.json'' \<in> artifact_urls arts)"
    using m by (intro exI [of _ repo]) simp
next
  assume "mset arts' = mset arts"
  then show "mset (cl_packages (circle_classify arts')) = mset (cl_packages (circle_classify arts))"
    by (rule circle_classify_permutation)
next
  assume "mset arts' = mset arts"
  then show "mset (cl_images (circle_classify arts')) = mset (cl_images (circle_classify arts))"
    by (rule circle_classify_permutation)
next
  assume "mset arts' = mset arts"
  then show "cl_repos (circle_classify arts') = cl_repos (circle_classify arts)"
    by (rule circle_classify_permutation)
qed

text \<open>
  The theorem at a batch of a package and the repodata file next to it, in both orders.
\<close>

theorem circle_classify_repodata_two_pass_witness:
  "\<lparr>pkg_arch = ''noarch'', pkg_fname = ''x.tar.bz2'', pkg_url = ''a/packages/noarch/x.tar.bz2'',
     pkg_repodata_md = ''[repodata.json](a/packages/noarch/repodata.json)''\<rparr>
     \<in> set (cl_packages (circle_classify
          [(''p'', ''a/packages/noarch/x.tar.bz2'', 1), (''q'', ''a/packages/noarch/repodata.json'', 1)]))
   \<and> ''a/packages'' @ ''/'' @ ''noarch'' @ ''/repodata.json''
       \<in> artifact_urls [(''p'', ''a/packages/noarch/x.tar.bz2'', 1), (''q'', ''a/packages/noarch/repodata.json'', 1)]
   \<and> mset [(''q'', ''a/packages/noarch/repodata.json'', 1::nat), (''p'', ''a/packages/noarch/x.tar.bz2'', 1)]
       = mset [(''p'', ''a/packages/noarch/x.tar.bz2'', 1), (''q'', ''a/packages/noarch/repodata.json'', 1)]
   \<and> cl_packages (circle_classify
        [(''q'', ''a/packages/noarch/repodata.json'', 1), (''p'', ''a/packages/noarch/x.tar.bz2'', 1)])
       = cl_packages (circle_classify
        [(''p'', ''a/packages/noarch/x.tar.bz2'', 1), (''q'', ''a/packages/noarch/repodata.json'', 1)])"
proof -
  let ?arts = "[(''p'', ''a/packages/noarch/x.tar.bz2'', 1::nat), (''q'', ''a/packages/noarch/repodata.json'', 1)]"
  let ?arts' = "[(''q'', ''a/packages/noarch/repodata.json'', 1::nat), (''p'', ''a/packages/noarch/x.tar.bz2'', 1)]"
  let ?P = "\<lparr>pkg_arch = ''noarch'', pkg_fname = ''x.tar.bz2'', pkg_url = ''a/packages/noarch/x.tar.bz2'',
     pkg_repodata_md = ''[repodata.json](a/packages/noarch/repodata.json)''\<rparr>"
  have pk: "cl_packages (circle_classify ?arts) = [?P]"
    by code_simp
  have pk': "cl_packages (circle_classify ?arts') = [?P]"
    by code_simp
  have perm: "mset ?arts' = mset ?arts"
    by simp
  have url: "''a/packages'' @ ''/'' @ ''noarch'' @ ''/repodata.json'' \<in> artifact_urls ?arts"
    by (simp add: artifact_urls_def)
  from circle_classify_repodata_two_pass [of ?arts ?arts'] perm
  have "mset (cl_packages (circle_classify ?arts')) = mset (cl_packages (circle_classify ?arts))"
    by blast
  with pk pk' perm url show ?thesis
    by simp
qed

text \<open>
  Claim C5 as stated fails: for the package URL \<^verbatim>\<open>a/packages/noarch/x.tar.bz2\<close> the spec's
  grammar names \<^verbatim>\<open>a/noarch/repodata.json\<close> as the sibling; with that URL in the batch the
  package gains no link.
\<close>

theorem circle_classify_repodata_counterexample:
  "''a/noarch/repodata.json''
     \<in> artifact_urls [(''p'', ''a/packages/noarch/x.tar.bz2'', 1), (''q'', ''a/noarch/repodata.json'', 1)]
   \<and> cl_packages (circle_classify
        [(''p'', ''a/packages/noarch/x.tar.bz2'', 1), (''q'', ''a/noarch/repodata.json'', 1)])
     = [\<lparr>pkg_arch = ''noarch'', pkg_fname = ''x.tar.bz2'',
          pkg_url = ''a/packages/noarch/x.tar.bz2'', pkg_repodata_md = ''''\<rparr>]"
proof
  show "''a/noarch/repodata.json''
     \<in> artifact_urls [(''p'', ''a/packages/noarch/x.tar.bz2'', 1), (''q'', ''a/noarch/repodata.json'', 1)]"
    by (simp add: artifact_urls_def)
  show "cl_packages (circle_classify
        [(''p'', ''a/packages/noarch/x.tar.bz2'', 1), (''q'', ''a/noarch/repodata.json'', 1)])
     = [\<lparr>pkg_arch = ''noarch'', pkg_fname = ''x.tar.bz2'',
          pkg_url = ''a/packages/noarch/x.tar.bz2'', pkg_repodata_md = ''''\<rparr>]"
    by code_simp
qed

section \<open>The merge task: protection check and retry budget\<close>

lemma merge_pr_indeterminate:
  assumes "indeterminate w pr_number"
  shows "merge_pr w retries pr_number comment_id s =
     (if retries < 15 then (RetryTask 20, s)
      else (Returned (False, ''PR cannot be merged at this time. Please try again later''), s))"
  using assms
  by (auto simp: indeterminate_def merge_pr_def task_retry_def split: sum.splits prod.splits)

lemma merge_pr_refused:
  assumes "refused w pr_number m"
  shows "merge_pr w retries pr_number comment_id s = (Returned (False, m), s)"
  using assms
  by (auto simp: refused_def merge_pr_def split: sum.splits prod.splits)

lemma merge_pr_finish_not_retry:
  "fst (merge_pr_finish w pr n cid lines comment s) \<noteq> RetryTask c"
  by (simp add: merge_pr_finish_def Let_def split: sum.split option.split)

lemma merge_pr_checked_not_retry: "fst (merge_pr_checked w pr n cid s) \<noteq> RetryTask c"
  by (simp add: merge_pr_checked_def Let_def merge_pr_finish_not_retry
      split: sum.split option.split prod.split flow.split)

lemma merge_pr_retry_budget:
  assumes "fst (merge_pr w retries pr_number comment_id s) = RetryTask c"
  shows "retries < 15"
  using assms merge_pr_checked_not_retry
  by (auto simp: merge_pr_def task_retry_def
      split: sum.splits option.splits prod.splits bool.splits if_splits)

lemma run_merge_task_last:
  "run_merge_task ws 15 pr_number comment_id s = merge_pr (ws 15) 15 pr_number comment_id s"
proof -
  have "fst (merge_pr (ws 15) 15 pr_number comment_id s) \<noteq> RetryTask c" for c
    using merge_pr_retry_budget [of "ws 15" 15 pr_number comment_id s c] by auto
  then show ?thesis
    by (subst run_merge_task.simps) (simp add: Let_def split: outcome.split)
qed

lemma run_merge_task_indeterminate:
  assumes "retries < 15" and "indeterminate (ws retries) pr_number"
  shows "run_merge_task ws retries pr_number comment_id s =
         run_merge_task ws (Suc retries) pr_number comment_id s"
  using assms
  by (subst run_merge_task.simps) (simp add: merge_pr_indeterminate)

lemma run_merge_task_skip:
  assumes "\<forall>k. retries \<le> k \<and> k < 15 \<longrightarrow> indeterminate (ws k) pr_number" and "retries \<le> 15"
  shows "run_merge_task ws retries pr_number comment_id s =
         run_merge_task ws 15 pr_number comment_id s"
  using assms
proof (induction "15 - retries" arbitrary: retries)
  case 0
  then show ?case by simp
next
  case (Suc d)
  then have lt: "retries < 15" and ind: "indeterminate (ws retries) pr_number"
    by auto
  from Suc have "run_merge_task ws (Suc retries) pr_number comment_id s =
                 run_merge_task ws 15 pr_number comment_id s"
    by (intro Suc.hyps) auto
  with run_merge_task_indeterminate [of retries ws pr_number comment_id s] lt ind show ?case
    by simp
qed

text \<open>
  Claim C2, as amended. While the protection check is indeterminate and fewer than 15
  re-runs have been made, the merge task re-queues itself with a countdown of 20
  seconds; when it is indeterminate after 15 re-runs, the task returns the pair
  \<^verbatim>\<open>(False, "PR cannot be merged at this time. Please try again later")\<close>; when the check
  answers \<^verbatim>\<open>False\<close>, in whichever run, the task returns at once with the message of the
  check, verbatim. Hence, when the check is indeterminate in the first 15 runs, the
  outcome of the task is the outcome of run 16: a concrete answer there is honoured, and
  only an indeterminate answer there gives the try-again-later pair.
\<close>

theorem merge_pr_protection_retry:
  "(indeterminate w pr_number \<and> retries < 15 \<longrightarrow>
      merge_pr w retries pr_number comment_id s = (RetryTask 20, s))
   \<and> (indeterminate w pr_number \<and> 15 \<le> retries \<longrightarrow>
        merge_pr w retries pr_number comment_id s =
          (Returned (False, ''PR cannot be merged at this time. Please try again later''), s))
   \<and> (refused w pr_number m \<longrightarrow>
        merge_pr w retries pr_number comment_id s = (Returned (False, m), s))
   \<and> (refused (ws 0) pr_number m \<longrightarrow>
        run_merge_task ws 0 pr_number comment_id s = (Returned (False, m), s))
   \<and> ((\<forall>k<15. indeterminate (ws k) pr_number) \<longrightarrow>
        run_merge_task ws 0 pr_number comment_id s = merge_pr (ws 15) 15 pr_number comment_id s)
   \<and> ((\<forall>k<15. indeterminate (ws k) pr_number) \<and> refused (ws 15) pr_number m \<longrightarrow>
        run_merge_task ws 0 pr_number comment_id s = (Returned (False, m), s))
   \<and> ((\<forall>k<15. indeterminate (ws k) pr_number) \<and> indeterminate (ws 15) pr_number \<longrightarrow>
        run_merge_task ws 0 pr_number comment_id s =
          (Returned (False, ''PR cannot be merged at this time. Please try again later''), s))"
proof -
  have first: "run_merge_task ws 0 pr_number comment_id s = (Returned (False, m), s)"
    if "refused (ws 0) pr_number m"
    using that by (subst run_merge_task.simps) (simp add: merge_pr_refused)
  have last: "run_merge_task ws 0 pr_number comment_id s =
              merge_pr (ws 15) 15 pr_number comment_id s"
    if "\<forall>k<15. indeterminate (ws k) pr_number"
    using that run_merge_task_skip [of 0 ws pr_number comment_id s]
    by (simp add: run_merge_task_last)
  show ?thesis
    by (simp add: merge_pr_indeterminate merge_pr_refused first last)
qed

text \<open>
  The theorem at an environment whose check is indeterminate in runs 1 to 15 and
  answers \<^verbatim>\<open>False\<close> in run 16, and at one whose check stays indeterminate.
\<close>

theorem merge_pr_protection_retry_witness:
  "indeterminate (example_world\<lparr>gh_check_protections := (\<lambda>n sha. Inr (None, ''pending''))\<rparr>) 1
   \<and> merge_pr (example_world\<lparr>gh_check_protections := (\<lambda>n sha. Inr (None, ''pending''))\<rparr>)
        14 1 2 example_state = (RetryTask 20, example_state)
   \<and> merge_pr (example_world\<lparr>gh_check_protections := (\<lambda>n sha. Inr (None, ''pending''))\<rparr>)
        15 1 2 example_state =
        (Returned (False, ''PR cannot be merged at this time. Please try again later''),
         example_state)
   \<and> refused (example_world\<lparr>gh_check_protections := (\<lambda>n sha. Inr (Some False, ''no''))\<rparr>) 1 ''no''
   \<and> merge_pr (example_world\<lparr>gh_check_protections := (\<lambda>n sha. Inr (Some False, ''no''))\<rparr>)
        0 1 2 example_state = (Returned (False, ''no''), example_state)
   \<and> run_merge_task (\<lambda>k. example_world\<lparr>gh_check_protections := (\<lambda>n sha. Inr (None, ''pending''))\<rparr>)
        0 1 2 example_state =
        (Returned (False, ''PR cannot be merged at this time. Please try again later''),
         example_state)"
proof -
  let ?w = "example_world\<lparr>gh_check_protections := (\<lambda>n sha. Inr (None, ''pending''))\<rparr>"
  let ?v = "example_world\<lparr>gh_check_protections := (\<lambda>n sha. Inr (Some False, ''no''))\<rparr>"
  have ind: "indeterminate ?w 1"
    by (simp add: indeterminate_def example_world_def)
  have ref: "refused ?v 1 ''no''"
    by (simp add: refused_def example_world_def)
  from ind ref
    merge_pr_protection_retry [of ?w 1 14 2 example_state "''no''" "\<lambda>k. ?w"]
    merge_pr_protection_retry [of ?w 1 15 2 example_state "''no''" "\<lambda>k. ?w"]
    merge_pr_protection_retry [of ?v 1 0 2 example_state "''no''" "\<lambda>k. ?w"]
  show ?thesis
    by simp
qed

text \<open>
  Claim C2 as stated fails in its last part: with the check indeterminate in runs 1 to
  15 and the answer \<^verbatim>\<open>False\<close> in run 16, the task returns the message of the check, not
  the try-again-later message.
\<close>

theorem merge_pr_protection_retry_counterexample:
  "fst (run_merge_task
         (\<lambda>k. example_world\<lparr>gh_check_protections :=
                 (\<lambda>n sha. Inr (if k < 15 then None else Some False, ''Required checks failed''))\<rparr>)
         0 1 2 example_state)
     = Returned (False, ''Required checks failed'')
   \<and> fst (run_merge_task
         (\<lambda>k. example_world\<lparr>gh_check_protections :=
                 (\<lambda>n sha. Inr (if k < 15 then None else Some False, ''Required checks failed''))\<rparr>)
         0 1 2 example_state)
     \<noteq> Returned (False, ''PR cannot be merged at this time. Please try again later'')"
proof -
  have "fst (run_merge_task
         (\<lambda>k. example_world\<lparr>gh_check_protections :=
                 (\<lambda>n sha. Inr (if k < 15 then None else Some False, ''Required checks failed''))\<rparr>)
         0 1 2 example_state)
     = Returned (False, ''Required checks failed'')"
    by code_simp
  then show ?thesis
    by simp
qed

section \<open>The merge task: classification, download and the scratch directory\<close>

lemma merge_classify_step_length:
  assumes "length (ml_files ml) = length (ml_packages ml) + length (ml_images ml)"
  shows "length (ml_files (merge_classify_step ml a)) =
         length (ml_packages (merge_classify_step ml a))
           + length (ml_images (merge_classify_step ml a))"
  using assms
  by (cases a) (auto simp: merge_classify_step_def Let_def split: option.splits)

lemma foldl_merge_classify_length:
  assumes "length (ml_files ml) = length (ml_packages ml) + length (ml_images ml)"
  shows "length (ml_files (foldl merge_classify_step ml arts)) =
         length (ml_packages (foldl merge_classify_step ml arts))
           + length (ml_images (foldl merge_classify_step ml arts))"
  using assms
  by (induction arts arbitrary: ml) (simp_all add: merge_classify_step_length)

lemma merge_classify_length:
  "length (ml_files (merge_classify arts)) =
   length (ml_packages (merge_classify arts)) + length (ml_images (merge_classify arts))"
  by (simp add: merge_classify_def foldl_merge_classify_length)

lemma merge_classify_no_files:
  assumes "ml_packages (merge_classify arts) = []" and "ml_images (merge_classify arts) = []"
  shows "ml_files (merge_classify arts) = []"
  using assms merge_classify_length [of arts] by simp

lemma events_emit: "events (emit e s) = events s @ [e]"
  by (simp add: emit_def)

lemma merge_pr_checked_no_files:
  assumes "gh_update_comment w comment_id merge_started_comment = None"
    and "circle_get_artifacts w (circle_branch w pr pr_number) (pr_head_sha pr) = Inr artifacts"
    and "ml_files (merge_classify artifacts) = []"
  shows "merge_pr_checked w pr pr_number comment_id s =
     (Returned (False, ''PR did not build any packages.''),
      emit (EvUpdateComment comment_id merge_started_comment) s)"
  using assms by (simp add: merge_pr_checked_def Let_def)

lemma download_files_done: "fst (download_files w tmpdir files s) \<noteq> Inr False"
  by (simp add: download_files_def Let_def split: prod.split option.split)

text \<open>
  Claim C6. When the merge task has passed the protection check and published its first
  progress text, and the artifact list that the CI client answers classifies to no
  package and no image, the task returns exactly
  \<^verbatim>\<open>(False, "PR did not build any packages.")\<close>; the update of the progress comment is its
  only effect, so nothing is downloaded and nothing is uploaded.
\<close>

theorem merge_pr_no_artifacts:
  assumes "gh_get_prs w pr_number = Inr pr"
    and "gh_check_protections w pr_number (pr_head_sha pr) = Inr (Some True, message)"
    and "gh_update_comment w comment_id merge_started_comment = None"
    and "circle_get_artifacts w (circle_branch w pr pr_number) (pr_head_sha pr) = Inr artifacts"
    and "ml_packages (merge_classify artifacts) = []"
    and "ml_images (merge_classify artifacts) = []"
  shows "merge_pr w retries pr_number comment_id s =
           (Returned (False, ''PR did not build any packages.''),
            emit (EvUpdateComment comment_id merge_started_comment) s)
         \<and> filter is_transfer (events (snd (merge_pr w retries pr_number comment_id s)))
             = filter is_transfer (events s)"
proof -
  from assms(5,6) have "ml_files (merge_classify artifacts) = []"
    by (rule merge_classify_no_files)
  with assms(3,4) have "merge_pr_checked w pr pr_number comment_id s =
     (Returned (False, ''PR did not build any packages.''),
      emit (EvUpdateComment comment_id merge_started_comment) s)"
    by (rule merge_pr_checked_no_files)
  with assms(1,2) have "merge_pr w retries pr_number comment_id s =
     (Returned (False, ''PR did not build any packages.''),
      emit (EvUpdateComment comment_id merge_started_comment) s)"
    by (simp add: merge_pr_def)
  then show ?thesis
    by (simp add: events_emit)
qed

text \<open>
  The theorem at a pull request whose only artifact is neither a package nor an image.
\<close>

theorem merge_pr_no_artifacts_witness:
  "merge_pr (example_world\<lparr>circle_get_artifacts := (\<lambda>b sha. Inr [(''p'', ''https://ci/build.log'', 3)])\<rparr>)
      0 1 2 example_state =
     (Returned (False, ''PR did not build any packages.''),
      emit (EvUpdateComment 2 merge_started_comment) example_state)
   \<and> filter is_transfer (events (snd (merge_pr
        (example_world\<lparr>circle_get_artifacts := (\<lambda>b sha. Inr [(''p'', ''https://ci/build.log'', 3)])\<rparr>)
        0 1 2 example_state)))
      = filter is_transfer (events example_state)"
proof -
  let ?w = "example_world\<lparr>circle_get_artifacts := (\<lambda>b sha. Inr [(''p'', ''https://ci/build.log'', 3)])\<rparr>"
  have prs: "gh_get_prs ?w 1 = Inr example_pr"
    by (simp add: example_world_def)
  have chk: "gh_check_protections ?w 1 (pr_head_sha example_pr) = Inr (Some True, ''ok'')"
    by (simp add: example_world_def)
  have upd: "gh_update_comment ?w 2 merge_started_comment = None"
    by (simp add: example_world_def)
  have arts: "circle_get_artifacts ?w (circle_branch ?w example_pr 1) (pr_head_sha example_pr)
      = Inr [(''p'', ''https://ci/build.log'', 3)]"
    by simp
  have pk: "ml_packages (merge_classify [(''p'', ''https://ci/build.log'', 3)]) = []"
    by code_simp
  have im: "ml_images (merge_classify [(''p'', ''https://ci/build.log'', 3)]) = []"
    by code_simp
  show ?thesis
    by (rule merge_pr_no_artifacts [OF prs chk upd arts pk im])
qed

text \<open>
  Claim C1 fails on the code. The download block is a \<^verbatim>\<open>try\<close> with a \<^verbatim>\<open>finally\<close> clause
  and no \<^verbatim>\<open>except\<close> clause: after it the flag \<^verbatim>\<open>done\<close> is never \<^verbatim>\<open>False\<close>, so the return
  of \<^verbatim>\<open>(False, "Failed to download archives. Please try again later")\<close> cannot be
  reached. At a pull request with one package whose download raises, the task closes
  the file, removes the scratch directory and raises the exception of the download.
\<close>

theorem merge_pr_download_failure_escapes:
  "fst (download_files w tmpdir files s) \<noteq> Inr False
   \<and> fst (merge_pr
        (example_world\<lparr>circle_get_artifacts :=
             (\<lambda>b sha. Inr [(''p'', ''https://ci/packages/noarch/x-1.0.tar.bz2'', 7)]),
           async_fetch := (\<lambda>urls. Some (ExternalError ''ClientError''))\<rparr>)
        0 1 2 example_state)
      = Raised (ExternalError ''ClientError'')
   \<and> drop 2 (events (snd (merge_pr
        (example_world\<lparr>circle_get_artifacts :=
             (\<lambda>b sha. Inr [(''p'', ''https://ci/packages/noarch/x-1.0.tar.bz2'', 7)]),
           async_fetch := (\<lambda>urls. Some (ExternalError ''ClientError''))\<rparr>)
        0 1 2 example_state)))
      = [EvMkTmpDir ''/tmp/t'', EvOpen ''/tmp/t/noarch/x-1.0.tar.bz2'',
         EvFetch [''https://ci/packages/noarch/x-1.0.tar.bz2''],
         EvClose ''/tmp/t/noarch/x-1.0.tar.bz2'', EvRmTmpDir ''/tmp/t'']"
proof (intro conjI)
  show "fst (download_files w tmpdir files s) \<noteq> Inr False"
    by (rule download_files_done)
  show "fst (merge_pr
        (example_world\<lparr>circle_get_artifacts :=
             (\<lambda>b sha. Inr [(''p'', ''https://ci/packages/noarch/x-1.0.tar.bz2'', 7)]),
           async_fetch := (\<lambda>urls. Some (ExternalError ''ClientError''))\<rparr>)
        0 1 2 example_state)
      = Raised (ExternalError ''ClientError'')"
    by code_simp
  show "drop 2 (events (snd (merge_pr
        (example_world\<lparr>circle_get_artifacts :=
             (\<lambda>b sha. Inr [(''p'', ''https://ci/packages/noarch/x-1.0.tar.bz2'', 7)]),
           async_fetch := (\<lambda>urls. Some (ExternalError ''ClientError''))\<rparr>)
        0 1 2 example_state)))
      = [EvMkTmpDir ''/tmp/t'', EvOpen ''/tmp/t/noarch/x-1.0.tar.bz2'',
         EvFetch [''https://ci/packages/noarch/x-1.0.tar.bz2''],
         EvClose ''/tmp/t/noarch/x-1.0.tar.bz2'', EvRmTmpDir ''/tmp/t'']"
    by code_simp
qed

end
